theory Spec2Isabelle
  imports Main
begin

section \<open>Route protection of the IngresoUNAM frontend (src/App.js)\<close>

text \<open>
  The development embeds the route guard \<^verbatim>\<open>ProtectedRoute\<close> of \<^verbatim>\<open>src/App.js\<close>, its
  verification procedure \<^verbatim>\<open>checkAuth\<close>, the wrapper \<^verbatim>\<open>AdminRoutes\<close> and the route table
  \<^verbatim>\<open>AppRouter\<close>.

  \<^item> JavaScript values are a datatype; \<^verbatim>\<open>undefined\<close> and \<^verbatim>\<open>null\<close> are values of it.
  \<^item> Exceptions are values: a computation that can throw returns \<open>exn + 'a\<close>.
  \<^item> \<^verbatim>\<open>localStorage\<close> and the component state of \<^verbatim>\<open>useState\<close> are threaded explicitly
    in a record \<open>world\<close>.
  \<^item> An \<^verbatim>\<open>async\<close> function is a resumption: it runs up to its next \<^verbatim>\<open>await fetch(...)\<close>
    and hands back the request together with the continuation that receives the settled
    promise and the world as it is at that later moment. The second \<^verbatim>\<open>await\<close> of each
    \<^verbatim>\<open>try\<close> block, on \<^verbatim>\<open>response.json()\<close>, reads the body of the response already
    received; its outcome is a field of the response.
  \<^item> A React component is its render function, a function of the component state, and
    its effect; the page components, \<^verbatim>\<open>FeedbackButton\<close> and \<^verbatim>\<open>AdminDataProvider\<close> are
    defined in other modules and stay uninterpreted elements.
  \<^item> \<^verbatim>\<open>localStorage.getItem\<close> is total, as the storage interface specifies it.
\<close>

subsection \<open>Values\<close>

text \<open>
  The payload of a number is never inspected by the guard; it is kept as an integer.
  An object lists its own properties, each key once.
\<close>

datatype jsval =
    JUndefined
  | JNull
  | JBool bool
  | JNum int
  | JStr string
  | JArr "jsval list"
  | JObj "(string \<times> jsval) list"

datatype exn = TypeError | SyntaxError

text \<open>
  \<^verbatim>\<open>localStorage.getItem\<close> yields a string or \<^verbatim>\<open>null\<close>; \<open>None\<close> stands for \<^verbatim>\<open>null\<close>.
\<close>

type_synonym storage = "string \<rightharpoonup> string"

text \<open>Truthiness of a string-or-null: \<^verbatim>\<open>null\<close> and the empty string are falsy.\<close>

definition truthy :: "string option \<Rightarrow> bool" where
  "truthy v = (case v of None \<Rightarrow> False | Some s \<Rightarrow> s \<noteq> [])"

text \<open>\<^verbatim>\<open>v || ""\<close> on a string-or-null.\<close>

definition or_empty :: "string option \<Rightarrow> string" where
  "or_empty v = (if truthy v then (case v of None \<Rightarrow> [] | Some s \<Rightarrow> s) else [])"

text \<open>Interpolation \<^verbatim>\<open>${v}\<close> of a string-or-null in a template literal.\<close>

definition interpolate :: "string option \<Rightarrow> string" where
  "interpolate v = (case v of None \<Rightarrow> ''null'' | Some s \<Rightarrow> s)"

subsection \<open>Guard state and world\<close>

record auth_state =
  loading :: bool
  authenticated :: bool
  user :: jsval

record world =
  localStorage :: storage
  authState :: auth_state

text \<open>The three object literals that the source passes to \<^verbatim>\<open>useState\<close> and \<^verbatim>\<open>setAuthState\<close>.\<close>

definition Loading :: auth_state where
  "Loading = \<lparr>loading = True, authenticated = False, user = JNull\<rparr>"

definition Authenticated :: "jsval \<Rightarrow> auth_state" where
  "Authenticated u = \<lparr>loading = False, authenticated = True, user = u\<rparr>"

definition Unauthenticated :: auth_state where
  "Unauthenticated = \<lparr>loading = False, authenticated = False, user = JNull\<rparr>"

definition getItem :: "string \<Rightarrow> world \<Rightarrow> string option" where
  "getItem k w = localStorage w k"

text \<open>
  \<^verbatim>\<open>setAuthState\<close> in its updater form; \<^verbatim>\<open>setAuthState(v)\<close> is \<open>setAuthState (\<lambda>_. v)\<close>.
\<close>

definition setAuthState :: "(auth_state \<Rightarrow> auth_state) \<Rightarrow> world \<Rightarrow> world" where
  "setAuthState f w = w\<lparr>authState := f (authState w)\<rparr>"

text \<open>The function handed to descendants: \<^verbatim>\<open>(u) => setAuthState(s => ({ ...s, user: u }))\<close>.\<close>

definition setUser :: "jsval \<Rightarrow> world \<Rightarrow> world" where
  "setUser u w = setAuthState (\<lambda>s. s\<lparr>user := u\<rparr>) w"

subsection \<open>Network\<close>

record request =
  url :: string
  credentials :: "string option"
  headers :: "(string \<times> string) list"

text \<open>
  A response carries its \<^verbatim>\<open>ok\<close> flag and what \<^verbatim>\<open>await response.json()\<close> gives: the parsed
  body, or the exception it throws. \<^verbatim>\<open>await fetch(...)\<close> gives a response or throws.
\<close>

record response =
  ok :: bool
  json :: "exn + jsval"

type_synonym fetch_result = "exn + response"

text \<open>
  The backend answers a request knowing the requests this run has sent before, so that it
  may answer the same request differently the second time.
\<close>

type_synonym backend = "request list \<Rightarrow> request \<Rightarrow> fetch_result"

text \<open>
  A running \<^verbatim>\<open>async\<close> function: its promise is fulfilled, or rejected with an exception,
  or it is suspended at one \<^verbatim>\<open>await fetch(req)\<close>.
\<close>

datatype task =
    Fulfilled
  | Rejected exn
  | Await request "fetch_result \<Rightarrow> world \<Rightarrow> task \<times> world"

subsection \<open>checkAuth\<close>

text \<open>
  The module constant \<^verbatim>\<open>API\<close> is fixed at build time from the environment; it is the
  parameter \<open>api\<close>.
\<close>

definition cookie_request :: "string \<Rightarrow> world \<Rightarrow> request" where
  "cookie_request api w =
     \<lparr>url = api @ ''/auth/me'',
      credentials = Some ''include'',
      headers = [(''Authorization'', ''Bearer '' @ or_empty (getItem ''token'' w))]\<rparr>"

definition token_request :: "string \<Rightarrow> string option \<Rightarrow> request" where
  "token_request api token =
     \<lparr>url = api @ ''/auth/me'',
      credentials = None,
      headers = [(''Authorization'', ''Bearer '' @ interpolate token)]\<rparr>"

text \<open>
  The body of either \<^verbatim>\<open>try\<close> block once its \<^verbatim>\<open>fetch\<close> has settled: \<open>Inl e\<close> when it throws
  \<open>e\<close> (from \<^verbatim>\<open>fetch\<close> or from \<^verbatim>\<open>json()\<close>), \<open>Inr (Some u)\<close> when it reaches
  \<^verbatim>\<open>setAuthState\<close> and \<^verbatim>\<open>return\<close> with user \<open>u\<close>, \<open>Inr None\<close> when the response is not ok
  and the block ends without returning.
\<close>

definition try_verify :: "fetch_result \<Rightarrow> exn + jsval option" where
  "try_verify r =
     (case r of
        Inl e \<Rightarrow> Inl e
      | Inr resp \<Rightarrow>
          if ok resp then (case json resp of Inl e \<Rightarrow> Inl e | Inr u \<Rightarrow> Inr (Some u))
          else Inr None)"

text \<open>Lines 66 to 84: the attempt with the stored token, then the final \<^verbatim>\<open>setAuthState\<close>.\<close>

definition tokenAttempt :: "string \<Rightarrow> world \<Rightarrow> task \<times> world" where
  "tokenAttempt api w =
     (let token = getItem ''token'' w in
      if truthy token then
        (Await (token_request api token)
           (\<lambda>r w'. case try_verify r of
                Inr (Some u) \<Rightarrow> (Fulfilled, setAuthState (\<lambda>_. Authenticated u) w')
              | Inr None \<Rightarrow> (Fulfilled, setAuthState (\<lambda>_. Unauthenticated) w')
              | Inl e \<Rightarrow> (Fulfilled, setAuthState (\<lambda>_. Unauthenticated) w')),
         w)
      else (Fulfilled, setAuthState (\<lambda>_. Unauthenticated) w))"

text \<open>
  Lines 42 to 85. Each \<open>Inl e\<close> branch is an empty \<^verbatim>\<open>catch (error) {}\<close>: the exception is
  dropped and control falls through to what follows the \<^verbatim>\<open>try\<close> statement.
\<close>

definition checkAuth :: "string \<Rightarrow> world \<Rightarrow> task \<times> world" where
  "checkAuth api w =
     (let storedUser = getItem ''user'' w;
          isAuth = getItem ''isAuthenticated'' w in
      if truthy storedUser \<and> isAuth = Some ''true'' then
        (Await (cookie_request api w)
           (\<lambda>r w'. case try_verify r of
                Inr (Some u) \<Rightarrow> (Fulfilled, setAuthState (\<lambda>_. Authenticated u) w')
              | Inr None \<Rightarrow> tokenAttempt api w'
              | Inl e \<Rightarrow> tokenAttempt api w'),
         w)
      else tokenAttempt api w)"

text \<open>
  Running a task against a backend: each step settles the outstanding \<^verbatim>\<open>fetch\<close> and
  resumes the continuation; the log records the requests in the order they were sent.
  The first argument bounds the number of resumptions. Between a suspension and its
  resumption the world is handed on as it is: within one run nothing else writes it.
\<close>

primrec drive :: "nat \<Rightarrow> backend \<Rightarrow> request list \<Rightarrow> task \<times> world \<Rightarrow> request list \<times> task \<times> world" where
  "drive 0 be log tw = (log, tw)"
| "drive (Suc n) be log tw =
     (case fst tw of
        Await req k \<Rightarrow> drive n be (log @ [req]) (k (be log req) (snd tw))
      | Fulfilled \<Rightarrow> (log, tw)
      | Rejected e \<Rightarrow> (log, tw))"

definition run_checkAuth :: "backend \<Rightarrow> string \<Rightarrow> world \<Rightarrow> request list \<times> task \<times> world" where
  "run_checkAuth be api w = drive 2 be [] (checkAuth api w)"

subsection \<open>Rendering\<close>

datatype page =
    Landing | Login | Register | Dashboard | Exam | Results | History | Subjects
  | SubjectPractice | Plans | Subscription | PaymentSuccess | PaymentCancel
  | AdminDashboard | AdminQuestions | AdminSimulators | AdminUsers | AdminReports
  | AdminReadingTexts | AdminFeedback

text \<open>
  React elements. \<open>Navigate to replace\<close> is \<^verbatim>\<open><Navigate to=... replace />\<close> when the flag
  is set. \<open>AuthContextProvider u cs\<close> is the provider whose value carries \<open>u\<close> as
  \<^verbatim>\<open>user\<close> (and \<open>setUser\<close>). \<open>ProtectedRouteEl cs a\<close> is the unrendered
  \<^verbatim>\<open><ProtectedRoute adminOnly={a}>cs</ProtectedRoute>\<close>.
\<close>

datatype element =
    Page page
  | Spinner
  | Navigate string bool
  | FeedbackButton
  | AdminDataProvider "element list"
  | AuthContextProvider jsval "element list"
  | ProtectedRouteEl "element list" bool

text \<open>
  Reading \<^verbatim>\<open>v.role\<close>: a \<^verbatim>\<open>TypeError\<close> on \<^verbatim>\<open>undefined\<close> and \<^verbatim>\<open>null\<close>; the property, or
  \<^verbatim>\<open>undefined\<close> where the object has none; \<^verbatim>\<open>undefined\<close> on booleans, numbers, strings
  and arrays, which have no property of that name.
\<close>

definition role :: "jsval \<Rightarrow> exn + jsval" where
  "role v =
     (case v of
        JUndefined \<Rightarrow> Inl TypeError
      | JNull \<Rightarrow> Inl TypeError
      | JObj ps \<Rightarrow> Inr (case map_of ps ''role'' of None \<Rightarrow> JUndefined | Some x \<Rightarrow> x)
      | _ \<Rightarrow> Inr JUndefined)"

text \<open>The optional chain \<^verbatim>\<open>v?.role\<close>.\<close>

definition opt_role :: "jsval \<Rightarrow> exn + jsval" where
  "opt_role v = (if v = JNull \<or> v = JUndefined then Inr JUndefined else role v)"

text \<open>
  The render function of the guard, lines 90 to 111. \<^verbatim>\<open>adminOnly && ...\<close> evaluates its
  right operand only when \<^verbatim>\<open>adminOnly\<close> holds.
\<close>

definition ProtectedRoute :: "element list \<Rightarrow> bool \<Rightarrow> auth_state \<Rightarrow> exn + element" where
  "ProtectedRoute children adminOnly s =
     (if loading s then Inr Spinner
      else if \<not> authenticated s then Inr (Navigate ''/login'' True)
      else
        (case (if adminOnly
               then (case opt_role (user s) of
                       Inl e \<Rightarrow> Inl e
                     | Inr r \<Rightarrow> Inr (r \<noteq> JStr ''admin''))
               else Inr False) of
           Inl e \<Rightarrow> Inl e
         | Inr True \<Rightarrow> Inr (Navigate ''/dashboard'' True)
         | Inr False \<Rightarrow> Inr (AuthContextProvider (user s) (children @ [FeedbackButton]))))"

definition AdminRoutes :: "element list \<Rightarrow> element" where
  "AdminRoutes children = ProtectedRouteEl [AdminDataProvider children] True"

text \<open>The route table, in the order of the source.\<close>

definition AppRouter :: "(string \<times> element) list" where
  "AppRouter =
     [(''/'', Page Landing),
      (''/login'', Page Login),
      (''/register'', Page Register),
      (''/dashboard'', ProtectedRouteEl [Page Dashboard] False),
      (''/simulators'', Navigate ''/dashboard'' True),
      (''/exam/:simulatorId'', ProtectedRouteEl [Page Exam] False),
      (''/results/:attemptId'', ProtectedRouteEl [Page Results] False),
      (''/history'', ProtectedRouteEl [Page History] False),
      (''/subjects'', ProtectedRouteEl [Page Subjects] False),
      (''/subjects/:subjectId'', ProtectedRouteEl [Page SubjectPractice] False),
      (''/plans'', ProtectedRouteEl [Page Plans] False),
      (''/subscription'', ProtectedRouteEl [Page Subscription] False),
      (''/payment/success'', ProtectedRouteEl [Page PaymentSuccess] False),
      (''/payment/cancel'', ProtectedRouteEl [Page PaymentCancel] False),
      (''/admin'', AdminRoutes [Page AdminDashboard]),
      (''/admin/questions'', AdminRoutes [Page AdminQuestions]),
      (''/admin/simulators'', AdminRoutes [Page AdminSimulators]),
      (''/admin/users'', AdminRoutes [Page AdminUsers]),
      (''/admin/reports'', AdminRoutes [Page AdminReports]),
      (''/admin/reading-texts'', AdminRoutes [Page AdminReadingTexts]),
      (''/admin/feedback'', AdminRoutes [Page AdminFeedback])]"

text \<open>
  What a route's element renders when its guard instance, if it has one, is in state \<open>s\<close>.
\<close>

definition render :: "auth_state \<Rightarrow> element \<Rightarrow> exn + element" where
  "render s e =
     (case e of
        ProtectedRouteEl children adminOnly \<Rightarrow> ProtectedRoute children adminOnly s
      | _ \<Rightarrow> Inr e)"

text \<open>
  The effect an element starts when it is mounted: a guard calls \<^verbatim>\<open>checkAuth\<close>; the other
  elements of the route table start none.
\<close>

definition mount_effect :: "string \<Rightarrow> element \<Rightarrow> world \<Rightarrow> task \<times> world" where
  "mount_effect api e w =
     (case e of
        ProtectedRouteEl children adminOnly \<Rightarrow> checkAuth api w
      | _ \<Rightarrow> (Fulfilled, w))"

subsection \<open>Life cycle of a guard instance\<close>

text \<open>
  \<^verbatim>\<open>useState\<close> gives a fresh instance the state \<open>Loading\<close>; \<^verbatim>\<open>useEffect(..., [location])\<close>
  calls \<^verbatim>\<open>checkAuth\<close> after the first render and again after every render in which the
  location has changed. The effect's body is the call and nothing else; in particular
  the component state is not reset before the call. The instance, and with it the state,
  lives on across a change of location as long as React finds a guard at the same place
  of the tree, which is what the dependency on \<^verbatim>\<open>location\<close> is there for.
\<close>

definition mount :: "storage \<Rightarrow> world" where
  "mount st = \<lparr>localStorage = st, authState = Loading\<rparr>"


subsection \<open>Vocabulary of the statements\<close>

text \<open>
  What the route table asks of a path: nothing (\<open>None\<close>), a verified session
  (\<open>Some False\<close>), or a verified session of an administrator (\<open>Some True\<close>).
\<close>

definition guard_requirement :: "element \<Rightarrow> bool option" where
  "guard_requirement e =
     (case e of ProtectedRouteEl children adminOnly \<Rightarrow> Some adminOnly | _ \<Rightarrow> None)"


text \<open>
  The failure modes of one attempt: \<^verbatim>\<open>fetch\<close> throws, the status is not a success, or
  the body of a successful response does not parse.
\<close>

definition failed :: "fetch_result \<Rightarrow> bool" where
  "failed r =
     (case r of
        Inl e \<Rightarrow> True
      | Inr resp \<Rightarrow> if ok resp then (case json resp of Inl e \<Rightarrow> True | Inr u \<Rightarrow> False) else True)"

section \<open>Auxiliary facts\<close>

lemma try_verify_Some_iff:
  "try_verify r = Inr (Some u) \<longleftrightarrow> (\<exists>resp. r = Inr resp \<and> ok resp \<and> json resp = Inr u)"
  by (auto simp: try_verify_def split: sum.splits)

lemma failed_iff: "failed r \<longleftrightarrow> (\<forall>u. try_verify r \<noteq> Inr (Some u))"
  by (auto simp: failed_def try_verify_def split: sum.splits)

lemma drive_Fulfilled: "drive n be log (Fulfilled, w) = (log, Fulfilled, w)"
  by (cases n) simp_all

lemma drive_Await:
  "drive (Suc n) be log (Await req k, w) = drive n be (log @ [req]) (k (be log req) w)"
  by simp

lemma tokenAttempt_no_token:
  "\<not> truthy (localStorage w ''token'') \<Longrightarrow>
     tokenAttempt api w = (Fulfilled, w\<lparr>authState := Unauthenticated\<rparr>)"
  by (simp add: tokenAttempt_def getItem_def setAuthState_def)

lemma drive_tokenAttempt:
  "drive (Suc n) be log (tokenAttempt api w) =
     (if truthy (localStorage w ''token'')
      then (log @ [token_request api (localStorage w ''token'')], Fulfilled,
            w\<lparr>authState :=
               (case try_verify (be log (token_request api (localStorage w ''token''))) of
                  Inr (Some u) \<Rightarrow> Authenticated u
                | _ \<Rightarrow> Unauthenticated)\<rparr>)
      else (log, Fulfilled, w\<lparr>authState := Unauthenticated\<rparr>))"
  by (simp add: tokenAttempt_def getItem_def setAuthState_def drive_Fulfilled
      split: sum.splits option.splits)

text \<open>
  The whole run in closed form: the requests sent, the final task and the final world, by
  the contents of the store and the answers of the backend.
\<close>

lemma run_checkAuth_eq:
  "run_checkAuth be api w =
     (if truthy (localStorage w ''user'') \<and> localStorage w ''isAuthenticated'' = Some ''true''
      then
        (case try_verify (be [] (cookie_request api w)) of
           Inr (Some u) \<Rightarrow> ([cookie_request api w], Fulfilled, w\<lparr>authState := Authenticated u\<rparr>)
         | _ \<Rightarrow>
           (if truthy (localStorage w ''token'')
            then ([cookie_request api w, token_request api (localStorage w ''token'')], Fulfilled,
                  w\<lparr>authState :=
                     (case try_verify (be [cookie_request api w]
                                        (token_request api (localStorage w ''token''))) of
                        Inr (Some u) \<Rightarrow> Authenticated u
                      | _ \<Rightarrow> Unauthenticated)\<rparr>)
            else ([cookie_request api w], Fulfilled, w\<lparr>authState := Unauthenticated\<rparr>)))
      else
        (if truthy (localStorage w ''token'')
         then ([token_request api (localStorage w ''token'')], Fulfilled,
               w\<lparr>authState :=
                  (case try_verify (be [] (token_request api (localStorage w ''token''))) of
                     Inr (Some u) \<Rightarrow> Authenticated u
                   | _ \<Rightarrow> Unauthenticated)\<rparr>)
         else ([], Fulfilled, w\<lparr>authState := Unauthenticated\<rparr>)))"
proof -
  have two: "(2::nat) = Suc (Suc 0)" by simp
  show ?thesis
  proof (cases "truthy (localStorage w ''user'') \<and> localStorage w ''isAuthenticated'' = Some ''true''")
    case True
    then have start: "checkAuth api w =
        (Await (cookie_request api w)
           (\<lambda>r w'. case try_verify r of
                Inr (Some u) \<Rightarrow> (Fulfilled, setAuthState (\<lambda>_. Authenticated u) w')
              | Inr None \<Rightarrow> tokenAttempt api w'
              | Inl e \<Rightarrow> tokenAttempt api w'), w)"
      by (simp add: checkAuth_def getItem_def)
    show ?thesis
      unfolding run_checkAuth_def two start drive_Await
      using True
      by (simp add: drive_tokenAttempt drive_Fulfilled setAuthState_def
          del: drive.simps split: sum.splits option.splits)
  next
    case False
    then have start: "checkAuth api w = tokenAttempt api w"
      by (auto simp: checkAuth_def getItem_def)
    show ?thesis
      unfolding run_checkAuth_def two start
      using False by (auto simp add: drive_tokenAttempt simp del: drive.simps)
  qed
qed

lemma opt_role_total: "\<exists>r. opt_role v = Inr r"
  by (cases v) (simp_all add: opt_role_def role_def)

text \<open>Without the optional chain the read throws on \<^verbatim>\<open>null\<close> and \<^verbatim>\<open>undefined\<close>.\<close>

lemma role_nullish_throws: "role JNull = Inl TypeError \<and> role JUndefined = Inl TypeError"
  by (simp add: role_def)

lemma render_guard:
  "guard_requirement e = Some a \<Longrightarrow> \<exists>cs. e = ProtectedRouteEl cs a \<and> render s e = ProtectedRoute cs a s"
  by (cases e) (simp_all add: guard_requirement_def render_def)

text \<open>The requirement of every path of the route table.\<close>

lemma AppRouter_requirements:
  "map (\<lambda>(p, e). (p, guard_requirement e)) AppRouter =
     [(''/'', None), (''/login'', None), (''/register'', None),
      (''/dashboard'', Some False), (''/simulators'', None),
      (''/exam/:simulatorId'', Some False), (''/results/:attemptId'', Some False),
      (''/history'', Some False), (''/subjects'', Some False),
      (''/subjects/:subjectId'', Some False), (''/plans'', Some False),
      (''/subscription'', Some False), (''/payment/success'', Some False),
      (''/payment/cancel'', Some False),
      (''/admin'', Some True), (''/admin/questions'', Some True),
      (''/admin/simulators'', Some True), (''/admin/users'', Some True),
      (''/admin/reports'', Some True), (''/admin/reading-texts'', Some True),
      (''/admin/feedback'', Some True)]"
  by (simp add: AppRouter_def AdminRoutes_def guard_requirement_def)

text \<open>
  Whatever the backend answers and however far the task is driven, \<^verbatim>\<open>checkAuth\<close> leaves
  the world as it was or replaces the guard state by one of the two settled states.
\<close>

lemma drive_tokenAttempt_world:
  "snd (snd (drive n be log (tokenAttempt api w))) = w
   \<or> snd (snd (drive n be log (tokenAttempt api w))) = w\<lparr>authState := Unauthenticated\<rparr>
   \<or> (\<exists>u. snd (snd (drive n be log (tokenAttempt api w))) = w\<lparr>authState := Authenticated u\<rparr>)"
proof (cases n)
  case 0
  then show ?thesis
    by (simp add: tokenAttempt_def setAuthState_def Let_def)
next
  case (Suc m)
  then show ?thesis
    by (auto simp add: drive_tokenAttempt simp del: drive.simps split: sum.splits option.splits)
qed

lemma checkAuth_start:
  "checkAuth api w =
     (if truthy (localStorage w ''user'') \<and> localStorage w ''isAuthenticated'' = Some ''true''
      then (Await (cookie_request api w)
              (\<lambda>r w'. case try_verify r of
                   Inr (Some u) \<Rightarrow> (Fulfilled, setAuthState (\<lambda>_. Authenticated u) w')
                 | Inr None \<Rightarrow> tokenAttempt api w'
                 | Inl e \<Rightarrow> tokenAttempt api w'), w)
      else tokenAttempt api w)"
  by (simp add: checkAuth_def getItem_def)

lemma drive_checkAuth_world:
  "snd (snd (drive n be log (checkAuth api w))) = w
   \<or> snd (snd (drive n be log (checkAuth api w))) = w\<lparr>authState := Unauthenticated\<rparr>
   \<or> (\<exists>u. snd (snd (drive n be log (checkAuth api w))) = w\<lparr>authState := Authenticated u\<rparr>)"
proof (cases "truthy (localStorage w ''user'') \<and> localStorage w ''isAuthenticated'' = Some ''true''")
  case False
  then have "checkAuth api w = tokenAttempt api w"
    by (auto simp: checkAuth_start)
  then show ?thesis
    using drive_tokenAttempt_world [of n be log api w] by simp
next
  case True
  then have start: "checkAuth api w =
      (Await (cookie_request api w)
         (\<lambda>r w'. case try_verify r of
              Inr (Some u) \<Rightarrow> (Fulfilled, setAuthState (\<lambda>_. Authenticated u) w')
            | Inr None \<Rightarrow> tokenAttempt api w'
            | Inl e \<Rightarrow> tokenAttempt api w'), w)"
    by (simp add: checkAuth_start)
  show ?thesis
  proof (cases n)
    case 0
    then show ?thesis by (simp add: start)
  next
    case (Suc m)
    show ?thesis
      unfolding Suc start drive_Await
      using drive_tokenAttempt_world [of m be "log @ [cookie_request api w]" api w]
      by (auto simp add: drive_Fulfilled setAuthState_def simp del: drive.simps
          split: sum.splits option.splits)
  qed
qed

lemma drive_checkAuth_store:
  "localStorage (snd (snd (drive n be log (checkAuth api w)))) = localStorage w"
  using drive_checkAuth_world [of n be log api w] by auto




section \<open>The render contract of the guard\<close>

text \<open>
  Claim C1. For every route wrapped in the guard, once verification has resolved to the
  unauthenticated state (\<open>loading = False\<close>, \<open>authenticated = False\<close>) the guard renders
  the redirect to \<^verbatim>\<open>/login\<close> with \<^verbatim>\<open>replace\<close> set, whatever its children and whatever
  \<^verbatim>\<open>adminOnly\<close>; it does not render the provider that holds the protected children. This
  holds in particular for every guarded path of the route table.
\<close>

theorem unauthenticated_redirects_to_login:
  assumes "loading s = False" and "authenticated s = False"
  shows "ProtectedRoute children adminOnly s = Inr (Navigate ''/login'' True)
       \<and> (\<forall>u cs. ProtectedRoute children adminOnly s \<noteq> Inr (AuthContextProvider u cs))
       \<and> (\<forall>(p, e) \<in> set AppRouter.
            guard_requirement e \<noteq> None \<longrightarrow> render s e = Inr (Navigate ''/login'' True))"
proof -
  have guard: "ProtectedRoute cs a s = Inr (Navigate ''/login'' True)" for cs a
    using assms by (simp add: ProtectedRoute_def)
  have "render s e = Inr (Navigate ''/login'' True)" if "guard_requirement e \<noteq> None" for e
  proof -
    from that obtain a where "guard_requirement e = Some a" by auto
    from render_guard [OF this, of s] show ?thesis by (auto simp: guard)
  qed
  with guard show ?thesis by auto
qed

theorem unauthenticated_redirects_to_login_witness:
  "loading Unauthenticated = False \<and> authenticated Unauthenticated = False
   \<and> ProtectedRoute [Page Dashboard] False Unauthenticated = Inr (Navigate ''/login'' True)
   \<and> render Unauthenticated (AdminRoutes [Page AdminUsers]) = Inr (Navigate ''/login'' True)"
proof -
  have h1: "loading Unauthenticated = False" and h2: "authenticated Unauthenticated = False"
    by (simp_all add: Unauthenticated_def)
  have "(''/admin/users'', AdminRoutes [Page AdminUsers]) \<in> set AppRouter"
    by (simp add: AppRouter_def)
  moreover have "guard_requirement (AdminRoutes [Page AdminUsers]) \<noteq> None"
    by (simp add: AdminRoutes_def guard_requirement_def)
  ultimately show ?thesis
    using unauthenticated_redirects_to_login [OF h1 h2, of "[Page Dashboard]" False] h1 h2
    by blast
qed

text \<open>
  Claim C2. On an admin-gated route (the guard with \<^verbatim>\<open>adminOnly\<close> set, which is what
  \<^verbatim>\<open>AdminRoutes\<close> builds), an authenticated state whose user's role, read through the
  optional chain, is not the string \<^verbatim>\<open>"admin"\<close> renders the redirect to \<^verbatim>\<open>/dashboard\<close> with
  \<^verbatim>\<open>replace\<close> set and not the provider holding the admin children. This holds for every
  admin path of the route table.
\<close>

theorem non_admin_redirects_to_dashboard:
  assumes "loading s = False" and "authenticated s = True"
    and "opt_role (user s) \<noteq> Inr (JStr ''admin'')"
  shows "ProtectedRoute children True s = Inr (Navigate ''/dashboard'' True)
       \<and> (\<forall>u cs. ProtectedRoute children True s \<noteq> Inr (AuthContextProvider u cs))
       \<and> render s (AdminRoutes children) = Inr (Navigate ''/dashboard'' True)
       \<and> (\<forall>(p, e) \<in> set AppRouter.
            guard_requirement e = Some True \<longrightarrow> render s e = Inr (Navigate ''/dashboard'' True))"
proof -
  obtain r where r: "opt_role (user s) = Inr r" using opt_role_total by blast
  with assms(3) have "r \<noteq> JStr ''admin''" by simp
  with r assms(1,2) have guard: "ProtectedRoute cs True s = Inr (Navigate ''/dashboard'' True)" for cs
    by (simp add: ProtectedRoute_def)
  have "render s e = Inr (Navigate ''/dashboard'' True)" if "guard_requirement e = Some True" for e
    using render_guard [OF that, of s] by (auto simp: guard)
  moreover have "render s (AdminRoutes children) = Inr (Navigate ''/dashboard'' True)"
    by (simp add: AdminRoutes_def render_def guard)
  ultimately show ?thesis using guard by auto
qed

theorem non_admin_redirects_to_dashboard_witness:
  "loading (Authenticated (JObj [(''email'', JStr ''a@b.mx''), (''role'', JStr ''user'')])) = False
   \<and> authenticated (Authenticated (JObj [(''email'', JStr ''a@b.mx''), (''role'', JStr ''user'')])) = True
   \<and> opt_role (JObj [(''email'', JStr ''a@b.mx''), (''role'', JStr ''user'')]) = Inr (JStr ''user'')
   \<and> render (Authenticated (JObj [(''email'', JStr ''a@b.mx''), (''role'', JStr ''user'')]))
        (AdminRoutes [Page AdminQuestions]) = Inr (Navigate ''/dashboard'' True)"
proof -
  let ?u = "JObj [(''email'', JStr ''a@b.mx''), (''role'', JStr ''user'')]"
  have h1: "loading (Authenticated ?u) = False" and h2: "authenticated (Authenticated ?u) = True"
    by (simp_all add: Authenticated_def)
  have r: "opt_role ?u = Inr (JStr ''user'')"
    by (simp add: opt_role_def role_def)
  have h3: "opt_role (user (Authenticated ?u)) \<noteq> Inr (JStr ''admin'')"
    by (simp add: Authenticated_def r)
  show ?thesis
    using non_admin_redirects_to_dashboard [OF h1 h2 h3, of "[Page AdminQuestions]"] h1 h2 r
    by blast
qed

section \<open>The verification procedure\<close>

text \<open>
  Claim C3. When the store holds neither the session flag together with a stored user
  (key \<^verbatim>\<open>user\<close> present and key \<^verbatim>\<open>isAuthenticated\<close> equal to \<^verbatim>\<open>"true"\<close>) nor a \<^verbatim>\<open>token\<close>,
  \<^verbatim>\<open>checkAuth\<close> finishes without suspending at any \<^verbatim>\<open>fetch\<close>: the log of requests is empty
  for every backend, and the state it sets is
  \<^verbatim>\<open>{ loading: false, authenticated: false, user: null }\<close>.
\<close>

theorem checkAuth_no_credentials:
  assumes "\<not> (localStorage w ''user'' \<noteq> None \<and> localStorage w ''isAuthenticated'' = Some ''true'')"
    and "localStorage w ''token'' = None"
  shows "checkAuth api w = (Fulfilled, w\<lparr>authState := Unauthenticated\<rparr>)
       \<and> run_checkAuth be api w = ([], Fulfilled, w\<lparr>authState := Unauthenticated\<rparr>)
       \<and> authState (snd (snd (run_checkAuth be api w)))
           = \<lparr>loading = False, authenticated = False, user = JNull\<rparr>"
proof -
  from assms(2) have tok: "\<not> truthy (localStorage w ''token'')"
    by (simp add: truthy_def)
  from assms(1) have ses:
    "\<not> (truthy (localStorage w ''user'') \<and> localStorage w ''isAuthenticated'' = Some ''true'')"
    by (auto simp: truthy_def split: option.splits)
  then have "checkAuth api w = tokenAttempt api w"
    by (auto simp: checkAuth_def getItem_def)
  with tok have "checkAuth api w = (Fulfilled, w\<lparr>authState := Unauthenticated\<rparr>)"
    by (simp add: tokenAttempt_no_token)
  moreover from ses tok
  have "run_checkAuth be api w = ([], Fulfilled, w\<lparr>authState := Unauthenticated\<rparr>)"
    by (auto simp: run_checkAuth_eq)
  ultimately show ?thesis by (simp add: Unauthenticated_def)
qed

theorem checkAuth_no_credentials_witness:
  "\<not> (localStorage (mount Map.empty) ''user'' \<noteq> None
       \<and> localStorage (mount Map.empty) ''isAuthenticated'' = Some ''true'')
   \<and> localStorage (mount Map.empty) ''token'' = None
   \<and> fst (run_checkAuth (\<lambda>h r. Inl TypeError) ''http://localhost:8000/api'' (mount Map.empty)) = []
   \<and> authState (snd (snd (run_checkAuth (\<lambda>h r. Inl TypeError) ''http://localhost:8000/api''
        (mount Map.empty)))) = Unauthenticated"
proof -
  have h1: "\<not> (localStorage (mount Map.empty) ''user'' \<noteq> None
       \<and> localStorage (mount Map.empty) ''isAuthenticated'' = Some ''true'')"
    by (simp add: mount_def)
  have h2: "localStorage (mount Map.empty) ''token'' = None"
    by (simp add: mount_def)
  show ?thesis
    using checkAuth_no_credentials [OF h1 h2, of "''http://localhost:8000/api''" "\<lambda>h r. Inl TypeError"] h1 h2
    by (simp add: Unauthenticated_def)
qed

text \<open>
  Claim C4. For every store and every backend the requests go out in a fixed order. If
  the store has a stored user and the session flag, the first request is the one with
  \<^verbatim>\<open>credentials: "include"\<close>; the request without the credentials option, carrying the
  stored token as bearer, follows only if that first attempt has failed and a token is
  stored, and it is the only request when there is no stored session. The second request
  exists only as the continuation of the first, so it is sent after the first response is
  known. A first attempt that succeeds leaves the log at that single request; the log
  never exceeds two requests, and after at most two resumptions the task is fulfilled.
\<close>

theorem checkAuth_attempt_order:
  "fst (run_checkAuth be api w) =
     (if truthy (localStorage w ''user'') \<and> localStorage w ''isAuthenticated'' = Some ''true''
      then cookie_request api w #
           (if failed (be [] (cookie_request api w)) \<and> truthy (localStorage w ''token'')
            then [token_request api (localStorage w ''token'')]
            else [])
      else if truthy (localStorage w ''token'')
           then [token_request api (localStorage w ''token'')]
           else [])
   \<and> length (fst (run_checkAuth be api w)) \<le> 2
   \<and> fst (snd (run_checkAuth be api w)) = Fulfilled
   \<and> credentials (cookie_request api w) = Some ''include''
   \<and> credentials (token_request api (localStorage w ''token'')) = None
   \<and> headers (token_request api (Some t)) = [(''Authorization'', ''Bearer '' @ t)]
   \<and> (truthy (localStorage w ''user'') \<and> localStorage w ''isAuthenticated'' = Some ''true''
        \<and> \<not> failed (be [] (cookie_request api w))
      \<longrightarrow> fst (run_checkAuth be api w) = [cookie_request api w])"
proof -
  have log: "fst (run_checkAuth be api w) =
     (if truthy (localStorage w ''user'') \<and> localStorage w ''isAuthenticated'' = Some ''true''
      then cookie_request api w #
           (if failed (be [] (cookie_request api w)) \<and> truthy (localStorage w ''token'')
            then [token_request api (localStorage w ''token'')]
            else [])
      else if truthy (localStorage w ''token'')
           then [token_request api (localStorage w ''token'')]
           else [])"
    by (auto simp: run_checkAuth_eq failed_iff split: sum.splits option.splits)
  have len: "length (fst (run_checkAuth be api w)) \<le> 2"
    unfolding log by simp
  have fin: "fst (snd (run_checkAuth be api w)) = Fulfilled"
    by (simp add: run_checkAuth_eq split: sum.splits option.splits)
  have reqs: "credentials (cookie_request api w) = Some ''include''"
    "credentials (token_request api (localStorage w ''token'')) = None"
    "headers (token_request api (Some t)) = [(''Authorization'', ''Bearer '' @ t)]"
    by (simp_all add: cookie_request_def token_request_def interpolate_def)
  have skip: "fst (run_checkAuth be api w) = [cookie_request api w]"
    if "truthy (localStorage w ''user'') \<and> localStorage w ''isAuthenticated'' = Some ''true''
        \<and> \<not> failed (be [] (cookie_request api w))"
    unfolding log using that by simp
  from log len fin reqs skip show ?thesis by blast
qed

theorem checkAuth_attempt_order_witness:
  "fst (run_checkAuth
         (\<lambda>h r. if h = [] then Inl TypeError else Inr \<lparr>ok = True, json = Inr (JObj [(''role'', JStr ''user'')])\<rparr>)
         ''/api''
         \<lparr>localStorage = [''user'' \<mapsto> ''{}'', ''isAuthenticated'' \<mapsto> ''true'', ''token'' \<mapsto> ''abc''],
          authState = Loading\<rparr>)
   = [\<lparr>url = ''/api/auth/me'', credentials = Some ''include'', headers = [(''Authorization'', ''Bearer abc'')]\<rparr>,
      \<lparr>url = ''/api/auth/me'', credentials = None, headers = [(''Authorization'', ''Bearer abc'')]\<rparr>]"
  using checkAuth_attempt_order [of
         "(\<lambda>h r. if h = [] then Inl TypeError else Inr \<lparr>ok = True, json = Inr (JObj [(''role'', JStr ''user'')])\<rparr>)"
         "''/api''"
         "\<lparr>localStorage = [''user'' \<mapsto> ''{}'', ''isAuthenticated'' \<mapsto> ''true'', ''token'' \<mapsto> ''abc''],
          authState = Loading\<rparr>"]
  by (simp add: truthy_def failed_def cookie_request_def token_request_def getItem_def
      or_empty_def interpolate_def)

text \<open>
  Claim C7, as stated, has the guard resolve to the unauthenticated state after a failure
  on either attempt. The two attempts are made one after the other, and the second is
  there to make up for the first: below, the store holds a session and a token, the
  request with credentials throws, and the request with the token is answered with
  success. The promise is fulfilled, and the state the guard is left in is the
  authenticated one.
\<close>

theorem cookie_failure_token_success_counterexample:
  "(\<lambda>(h::request list) (r::request).
       if h = [] then Inl TypeError
       else Inr \<lparr>ok = True, json = Inr (JObj [(''role'', JStr ''user'')])\<rparr>) []
     (cookie_request ''/api''
       \<lparr>localStorage = [''user'' \<mapsto> ''{}'', ''isAuthenticated'' \<mapsto> ''true'', ''token'' \<mapsto> ''abc''],
        authState = Loading\<rparr>)
     = Inl TypeError
   \<and> fst (run_checkAuth
         (\<lambda>(h::request list) (r::request).
            if h = [] then Inl TypeError
            else Inr \<lparr>ok = True, json = Inr (JObj [(''role'', JStr ''user'')])\<rparr>)
         ''/api''
         \<lparr>localStorage = [''user'' \<mapsto> ''{}'', ''isAuthenticated'' \<mapsto> ''true'', ''token'' \<mapsto> ''abc''],
          authState = Loading\<rparr>)
     = [\<lparr>url = ''/api/auth/me'', credentials = Some ''include'', headers = [(''Authorization'', ''Bearer abc'')]\<rparr>,
        \<lparr>url = ''/api/auth/me'', credentials = None, headers = [(''Authorization'', ''Bearer abc'')]\<rparr>]
   \<and> fst (snd (run_checkAuth
         (\<lambda>(h::request list) (r::request).
            if h = [] then Inl TypeError
            else Inr \<lparr>ok = True, json = Inr (JObj [(''role'', JStr ''user'')])\<rparr>)
         ''/api''
         \<lparr>localStorage = [''user'' \<mapsto> ''{}'', ''isAuthenticated'' \<mapsto> ''true'', ''token'' \<mapsto> ''abc''],
          authState = Loading\<rparr>)) = Fulfilled
   \<and> authState (snd (snd (run_checkAuth
         (\<lambda>(h::request list) (r::request).
            if h = [] then Inl TypeError
            else Inr \<lparr>ok = True, json = Inr (JObj [(''role'', JStr ''user'')])\<rparr>)
         ''/api''
         \<lparr>localStorage = [''user'' \<mapsto> ''{}'', ''isAuthenticated'' \<mapsto> ''true'', ''token'' \<mapsto> ''abc''],
          authState = Loading\<rparr>)))
     = \<lparr>loading = False, authenticated = True, user = JObj [(''role'', JStr ''user'')]\<rparr>
   \<and> authState (snd (snd (run_checkAuth
         (\<lambda>(h::request list) (r::request).
            if h = [] then Inl TypeError
            else Inr \<lparr>ok = True, json = Inr (JObj [(''role'', JStr ''user'')])\<rparr>)
         ''/api''
         \<lparr>localStorage = [''user'' \<mapsto> ''{}'', ''isAuthenticated'' \<mapsto> ''true'', ''token'' \<mapsto> ''abc''],
          authState = Loading\<rparr>)))
     \<noteq> \<lparr>loading = False, authenticated = False, user = JNull\<rparr>"
  by (simp add: run_checkAuth_eq truthy_def try_verify_def cookie_request_def token_request_def
      getItem_def or_empty_def interpolate_def Authenticated_def)

text \<open>
  Claim C7, amended. Whatever the backend does, the promise of \<^verbatim>\<open>checkAuth\<close> is fulfilled
  and never rejected: a thrown \<^verbatim>\<open>fetch\<close>, a status that is not a success and a body that
  does not parse are all absorbed. When every request that was sent has been answered by
  one of these failures (the \<open>i\<close>-th request of the log, answered knowing the \<open>i\<close>
  requests before it), the guard state becomes
  \<^verbatim>\<open>{ loading: false, authenticated: false, user: null }\<close>, and the guard then renders the
  redirect to \<^verbatim>\<open>/login\<close> rather than throwing.
\<close>

theorem checkAuth_swallows_failures:
  "fst (snd (run_checkAuth be api w)) = Fulfilled
   \<and> (\<forall>e. fst (snd (run_checkAuth be api w)) \<noteq> Rejected e)
   \<and> ((\<forall>i < length (fst (run_checkAuth be api w)).
          failed (be (take i (fst (run_checkAuth be api w))) (fst (run_checkAuth be api w) ! i)))
      \<longrightarrow> authState (snd (snd (run_checkAuth be api w)))
            = \<lparr>loading = False, authenticated = False, user = JNull\<rparr>
          \<and> ProtectedRoute children adminOnly (authState (snd (snd (run_checkAuth be api w))))
              = Inr (Navigate ''/login'' True))"
proof -
  have fin: "fst (snd (run_checkAuth be api w)) = Fulfilled"
    by (simp add: run_checkAuth_eq split: sum.splits option.splits)
  have un: "authState (snd (snd (run_checkAuth be api w))) = Unauthenticated"
    if all: "\<forall>i < length (fst (run_checkAuth be api w)).
          failed (be (take i (fst (run_checkAuth be api w))) (fst (run_checkAuth be api w) ! i))"
  proof (cases "truthy (localStorage w ''user'') \<and> localStorage w ''isAuthenticated'' = Some ''true''")
    case True
    let ?c = "cookie_request api w"
    let ?t = "token_request api (localStorage w ''token'')"
    from True have hd: "take 0 (fst (run_checkAuth be api w)) = []
        \<and> fst (run_checkAuth be api w) ! 0 = ?c \<and> 0 < length (fst (run_checkAuth be api w))"
      by (simp add: run_checkAuth_eq split: sum.splits option.splits)
    with all have f1: "failed (be [] ?c)" by metis
    show ?thesis
    proof (cases "truthy (localStorage w ''token'')")
      case False
      with True f1 show ?thesis
        by (simp add: run_checkAuth_eq failed_iff split: sum.splits option.splits)
    next
      case tok: True
      with True f1 have log: "fst (run_checkAuth be api w) = [?c, ?t]"
        by (simp add: run_checkAuth_eq failed_iff split: sum.splits option.splits)
      from all [unfolded log] have "failed (be (take (Suc 0) [?c, ?t]) ([?c, ?t] ! Suc 0))"
        by (elim allE [of _ "Suc 0"]) simp
      then have f2: "failed (be [?c] ?t)" by simp
      with True tok f1 show ?thesis
        by (simp add: run_checkAuth_eq failed_iff split: sum.splits option.splits)
    qed
  next
    case False
    let ?t = "token_request api (localStorage w ''token'')"
    show ?thesis
    proof (cases "truthy (localStorage w ''token'')")
      case nt: False
      with False show ?thesis by (auto simp add: run_checkAuth_eq)
    next
      case tok: True
      with False have log: "fst (run_checkAuth be api w) = [?t]"
        by (auto simp add: run_checkAuth_eq)
      from all [unfolded log] have "failed (be (take 0 [?t]) ([?t] ! 0))"
        by (elim allE [of _ 0]) simp
      then have f: "failed (be [] ?t)" by simp
      with False tok show ?thesis
        by (auto simp add: run_checkAuth_eq failed_iff split: sum.splits option.splits)
    qed
  qed
  have "ProtectedRoute children adminOnly Unauthenticated = Inr (Navigate ''/login'' True)"
    by (simp add: ProtectedRoute_def Unauthenticated_def)
  with fin un show ?thesis by (simp add: Unauthenticated_def)
qed

theorem checkAuth_swallows_failures_witness:
  "fst (run_checkAuth
         (\<lambda>(h::request list) (r::request). if h = [] then Inl TypeError else Inr \<lparr>ok = False, json = Inl SyntaxError\<rparr>)
         ''/api''
         \<lparr>localStorage = [''user'' \<mapsto> ''{}'', ''isAuthenticated'' \<mapsto> ''true'', ''token'' \<mapsto> ''abc''],
          authState = Loading\<rparr>)
     = [\<lparr>url = ''/api/auth/me'', credentials = Some ''include'', headers = [(''Authorization'', ''Bearer abc'')]\<rparr>,
        \<lparr>url = ''/api/auth/me'', credentials = None, headers = [(''Authorization'', ''Bearer abc'')]\<rparr>]
   \<and> failed (Inl TypeError)
   \<and> failed (Inr \<lparr>ok = False, json = Inl SyntaxError\<rparr>)
   \<and> fst (snd (run_checkAuth
         (\<lambda>(h::request list) (r::request). if h = [] then Inl TypeError else Inr \<lparr>ok = False, json = Inl SyntaxError\<rparr>)
         ''/api''
         \<lparr>localStorage = [''user'' \<mapsto> ''{}'', ''isAuthenticated'' \<mapsto> ''true'', ''token'' \<mapsto> ''abc''],
          authState = Loading\<rparr>)) = Fulfilled
   \<and> authState (snd (snd (run_checkAuth
         (\<lambda>(h::request list) (r::request). if h = [] then Inl TypeError else Inr \<lparr>ok = False, json = Inl SyntaxError\<rparr>)
         ''/api''
         \<lparr>localStorage = [''user'' \<mapsto> ''{}'', ''isAuthenticated'' \<mapsto> ''true'', ''token'' \<mapsto> ''abc''],
          authState = Loading\<rparr>)))
     = \<lparr>loading = False, authenticated = False, user = JNull\<rparr>"
proof -
  let ?be = "\<lambda>(h::request list) (r::request). if h = [] then Inl TypeError else Inr \<lparr>ok = False, json = Inl SyntaxError\<rparr>"
  let ?w = "\<lparr>localStorage = [''user'' \<mapsto> ''{}'', ''isAuthenticated'' \<mapsto> ''true'', ''token'' \<mapsto> ''abc''],
          authState = Loading\<rparr>"
  let ?log = "fst (run_checkAuth ?be ''/api'' ?w)"
  have f: "failed (Inl TypeError)" "failed (Inr \<lparr>ok = False, json = Inl SyntaxError\<rparr>)"
    by (simp_all add: failed_def)
  have log: "?log =
      [\<lparr>url = ''/api/auth/me'', credentials = Some ''include'', headers = [(''Authorization'', ''Bearer abc'')]\<rparr>,
       \<lparr>url = ''/api/auth/me'', credentials = None, headers = [(''Authorization'', ''Bearer abc'')]\<rparr>]"
    by (simp add: run_checkAuth_eq truthy_def try_verify_def cookie_request_def token_request_def
        getItem_def or_empty_def interpolate_def)
  have h: "\<forall>i < length ?log. failed (?be (take i ?log) (?log ! i))"
    using f by simp
  note t = checkAuth_swallows_failures [of ?be "''/api''" ?w "[]" False]
  from t have a: "fst (snd (run_checkAuth ?be ''/api'' ?w)) = Fulfilled"
    by (rule conjunct1)
  from t have "(\<forall>i < length ?log. failed (?be (take i ?log) (?log ! i))) \<longrightarrow>
        authState (snd (snd (run_checkAuth ?be ''/api'' ?w)))
          = \<lparr>loading = False, authenticated = False, user = JNull\<rparr>
        \<and> ProtectedRoute [] False (authState (snd (snd (run_checkAuth ?be ''/api'' ?w))))
            = Inr (Navigate ''/login'' True)"
    by (elim conjE)
  from mp [OF this h]
  have b: "authState (snd (snd (run_checkAuth ?be ''/api'' ?w)))
      = \<lparr>loading = False, authenticated = False, user = JNull\<rparr>"
    by (rule conjunct1)
  from log f a b show ?thesis by (intro conjI)
qed

text \<open>
  Claim C8. A successful verification, that is a response with \<^verbatim>\<open>ok\<close> set whose body
  parses to \<open>u\<close>, on the attempt with credentials or on the attempt with the token,
  leaves the guard state \<^verbatim>\<open>{ loading: false, authenticated: true, user: u }\<close> and the
  rest of the world untouched. \<^verbatim>\<open>checkAuth\<close> does not write the session store:
  \<^verbatim>\<open>localStorage\<close> after the run, and at every point of it, is \<^verbatim>\<open>localStorage\<close> before.
  Since the procedure contains no write at all, the store is in particular not written
  when the returned record differs from the stored one; a write, were there one, could
  only be blamed on something else.
\<close>

theorem checkAuth_leaves_store:
  "localStorage (snd (snd (run_checkAuth be api w))) = localStorage w
   \<and> (\<forall>n log. localStorage (snd (snd (drive n be log (checkAuth api w)))) = localStorage w)
   \<and> (truthy (localStorage w ''user'') \<and> localStorage w ''isAuthenticated'' = Some ''true''
        \<and> be [] (cookie_request api w) = Inr resp \<and> ok resp \<and> json resp = Inr u
      \<longrightarrow> snd (snd (run_checkAuth be api w))
            = w\<lparr>authState := \<lparr>loading = False, authenticated = True, user = u\<rparr>\<rparr>)
   \<and> (truthy (localStorage w ''user'') \<and> localStorage w ''isAuthenticated'' = Some ''true''
        \<and> failed (be [] (cookie_request api w)) \<and> truthy (localStorage w ''token'')
        \<and> be [cookie_request api w] (token_request api (localStorage w ''token'')) = Inr resp
        \<and> ok resp \<and> json resp = Inr u
      \<longrightarrow> snd (snd (run_checkAuth be api w))
            = w\<lparr>authState := \<lparr>loading = False, authenticated = True, user = u\<rparr>\<rparr>)
   \<and> (\<not> (truthy (localStorage w ''user'') \<and> localStorage w ''isAuthenticated'' = Some ''true'')
        \<and> truthy (localStorage w ''token'')
        \<and> be [] (token_request api (localStorage w ''token'')) = Inr resp
        \<and> ok resp \<and> json resp = Inr u
      \<longrightarrow> snd (snd (run_checkAuth be api w))
            = w\<lparr>authState := \<lparr>loading = False, authenticated = True, user = u\<rparr>\<rparr>)"
proof -
  have store: "localStorage (snd (snd (run_checkAuth be api w))) = localStorage w"
    by (simp add: run_checkAuth_def drive_checkAuth_store)
  have any: "\<forall>n log. localStorage (snd (snd (drive n be log (checkAuth api w)))) = localStorage w"
    by (simp add: drive_checkAuth_store)
  have tv: "try_verify r = Inr (Some u)" if "r = Inr resp \<and> ok resp \<and> json resp = Inr u" for r
    using that by (auto simp: try_verify_Some_iff)
  have c1: "snd (snd (run_checkAuth be api w))
            = w\<lparr>authState := \<lparr>loading = False, authenticated = True, user = u\<rparr>\<rparr>"
    if "truthy (localStorage w ''user'') \<and> localStorage w ''isAuthenticated'' = Some ''true''
        \<and> be [] (cookie_request api w) = Inr resp \<and> ok resp \<and> json resp = Inr u"
  proof -
    from that have "try_verify (be [] (cookie_request api w)) = Inr (Some u)"
      by (simp add: tv)
    with that show ?thesis by (simp add: run_checkAuth_eq Authenticated_def)
  qed
  have c2: "snd (snd (run_checkAuth be api w))
            = w\<lparr>authState := \<lparr>loading = False, authenticated = True, user = u\<rparr>\<rparr>"
    if "truthy (localStorage w ''user'') \<and> localStorage w ''isAuthenticated'' = Some ''true''
        \<and> failed (be [] (cookie_request api w)) \<and> truthy (localStorage w ''token'')
        \<and> be [cookie_request api w] (token_request api (localStorage w ''token'')) = Inr resp
        \<and> ok resp \<and> json resp = Inr u"
  proof -
    from that
    have "try_verify (be [cookie_request api w] (token_request api (localStorage w ''token'')))
        = Inr (Some u)"
      by (simp add: tv)
    with that show ?thesis
      by (simp add: run_checkAuth_eq failed_iff Authenticated_def split: sum.splits option.splits)
  qed
  have c3: "snd (snd (run_checkAuth be api w))
            = w\<lparr>authState := \<lparr>loading = False, authenticated = True, user = u\<rparr>\<rparr>"
    if "\<not> (truthy (localStorage w ''user'') \<and> localStorage w ''isAuthenticated'' = Some ''true'')
        \<and> truthy (localStorage w ''token'')
        \<and> be [] (token_request api (localStorage w ''token'')) = Inr resp
        \<and> ok resp \<and> json resp = Inr u"
  proof -
    from that
    have "try_verify (be [] (token_request api (localStorage w ''token''))) = Inr (Some u)"
      by (simp add: tv)
    with that show ?thesis by (auto simp add: run_checkAuth_eq Authenticated_def)
  qed
  from store any c1 c2 c3 show ?thesis by blast
qed

theorem checkAuth_leaves_store_witness:
  "ok \<lparr>ok = True, json = Inr (JObj [(''email'', JStr ''new@b.mx''), (''role'', JStr ''user'')])\<rparr>
   \<and> json \<lparr>ok = True, json = Inr (JObj [(''email'', JStr ''new@b.mx''), (''role'', JStr ''user'')])\<rparr>
       = Inr (JObj [(''email'', JStr ''new@b.mx''), (''role'', JStr ''user'')])
   \<and> authState (snd (snd (run_checkAuth
        (\<lambda>(h::request list) (r::request).
           Inr \<lparr>ok = True, json = Inr (JObj [(''email'', JStr ''new@b.mx''), (''role'', JStr ''user'')])\<rparr>)
        ''/api''
        (mount [''user'' \<mapsto> ''{}'', ''isAuthenticated'' \<mapsto> ''true'']))))
      = \<lparr>loading = False, authenticated = True,
         user = JObj [(''email'', JStr ''new@b.mx''), (''role'', JStr ''user'')]\<rparr>
   \<and> localStorage (snd (snd (run_checkAuth
        (\<lambda>(h::request list) (r::request).
           Inr \<lparr>ok = True, json = Inr (JObj [(''email'', JStr ''new@b.mx''), (''role'', JStr ''user'')])\<rparr>)
        ''/api''
        (mount [''user'' \<mapsto> ''{}'', ''isAuthenticated'' \<mapsto> ''true'']))))
        ''user''
      = Some ''{}''"
proof -
  let ?u = "JObj [(''email'', JStr ''new@b.mx''), (''role'', JStr ''user'')]"
  let ?resp = "\<lparr>ok = True, json = Inr ?u\<rparr>"
  let ?be = "\<lambda>(h::request list) (r::request). Inr ?resp :: fetch_result"
  let ?w = "mount [''user'' \<mapsto> ''{}'', ''isAuthenticated'' \<mapsto> ''true'']"
  note t = checkAuth_leaves_store [of ?be "''/api''" ?w ?resp ?u]
  have r: "ok ?resp" "json ?resp = Inr ?u"
    by simp_all
  have h: "truthy (localStorage ?w ''user'') \<and> localStorage ?w ''isAuthenticated'' = Some ''true''
        \<and> ?be [] (cookie_request ''/api'' ?w) = Inr ?resp \<and> ok ?resp \<and> json ?resp = Inr ?u"
    by (simp add: mount_def truthy_def)
  from t h have fin: "snd (snd (run_checkAuth ?be ''/api'' ?w))
      = ?w\<lparr>authState := \<lparr>loading = False, authenticated = True, user = ?u\<rparr>\<rparr>"
    by blast
  from t have st: "localStorage (snd (snd (run_checkAuth ?be ''/api'' ?w))) = localStorage ?w"
    by (rule conjunct1)
  have a: "authState (snd (snd (run_checkAuth ?be ''/api'' ?w)))
      = \<lparr>loading = False, authenticated = True, user = ?u\<rparr>"
    by (simp add: fin)
  have b: "localStorage (snd (snd (run_checkAuth ?be ''/api'' ?w))) ''user''
      = Some ''{}''"
    unfolding st by (simp add: mount_def)
  from r a b show ?thesis by (intro conjI)
qed

section \<open>The context value and the role check\<close>

text \<open>
  Claim C9. For every value \<open>u\<close>, \<^verbatim>\<open>setUser(u)\<close> makes \<open>u\<close> the user of the guard state
  and leaves \<^verbatim>\<open>loading\<close>, \<^verbatim>\<open>authenticated\<close> and the store as they were.
\<close>

theorem setUser_updates_only_user:
  "user (authState (setUser u w)) = u
   \<and> loading (authState (setUser u w)) = loading (authState w)
   \<and> authenticated (authState (setUser u w)) = authenticated (authState w)
   \<and> localStorage (setUser u w) = localStorage w"
  by (simp add: setUser_def setAuthState_def)

theorem setUser_updates_only_user_witness:
  "user (authState (setUser (JObj [(''role'', JStr ''admin'')])
      \<lparr>localStorage = Map.empty, authState = Authenticated JNull\<rparr>))
     = JObj [(''role'', JStr ''admin'')]
   \<and> loading (authState (setUser (JObj [(''role'', JStr ''admin'')])
      \<lparr>localStorage = Map.empty, authState = Authenticated JNull\<rparr>)) = False
   \<and> authenticated (authState (setUser (JObj [(''role'', JStr ''admin'')])
      \<lparr>localStorage = Map.empty, authState = Authenticated JNull\<rparr>)) = True"
  using setUser_updates_only_user [of "JObj [(''role'', JStr ''admin'')]"
      "\<lparr>localStorage = Map.empty, authState = Authenticated JNull\<rparr>"]
  by (simp add: Authenticated_def)

text \<open>
  Claim C10. The role check is total: the optional chain never throws, so the render
  function of the guard always returns an element. In the authenticated state with
  \<^verbatim>\<open>adminOnly\<close> set, a user that is \<^verbatim>\<open>null\<close> or \<^verbatim>\<open>undefined\<close>, an object without a \<^verbatim>\<open>role\<close>
  property, or an object whose role is not \<^verbatim>\<open>"admin"\<close> gives the redirect to
  \<^verbatim>\<open>/dashboard\<close>.
\<close>

theorem admin_role_check_total:
  "(\<exists>r. opt_role v = Inr r)
   \<and> (\<exists>e. ProtectedRoute children adminOnly s = Inr e)
   \<and> (loading s = False \<and> authenticated s = True
        \<and> (user s = JNull \<or> user s = JUndefined
            \<or> (\<exists>ps. user s = JObj ps \<and> map_of ps ''role'' = None)
            \<or> (\<exists>ps r. user s = JObj ps \<and> map_of ps ''role'' = Some r \<and> r \<noteq> JStr ''admin''))
      \<longrightarrow> ProtectedRoute children True s = Inr (Navigate ''/dashboard'' True))"
proof -
  obtain r where r: "opt_role (user s) = Inr r" using opt_role_total by blast
  have total: "\<exists>e. ProtectedRoute children adminOnly s = Inr e"
    by (cases adminOnly; cases "r = JStr ''admin''") (simp_all add: ProtectedRoute_def r)
  have "ProtectedRoute children True s = Inr (Navigate ''/dashboard'' True)"
    if "loading s = False \<and> authenticated s = True
        \<and> (user s = JNull \<or> user s = JUndefined
            \<or> (\<exists>ps. user s = JObj ps \<and> map_of ps ''role'' = None)
            \<or> (\<exists>ps r. user s = JObj ps \<and> map_of ps ''role'' = Some r \<and> r \<noteq> JStr ''admin''))"
  proof -
    from that have "opt_role (user s) \<noteq> Inr (JStr ''admin'')"
      by (auto simp: opt_role_def role_def)
    with r that show ?thesis by (simp add: ProtectedRoute_def)
  qed
  with total opt_role_total [of v] show ?thesis by blast
qed

theorem admin_role_check_total_witness:
  "loading (Authenticated JNull) = False \<and> authenticated (Authenticated JNull) = True
   \<and> user (Authenticated JNull) = JNull
   \<and> role JNull = Inl TypeError
   \<and> ProtectedRoute [AdminDataProvider [Page AdminDashboard]] True (Authenticated JNull)
       = Inr (Navigate ''/dashboard'' True)"
proof -
  have h: "loading (Authenticated JNull) = False" "authenticated (Authenticated JNull) = True"
    "user (Authenticated JNull) = JNull"
    by (simp_all add: Authenticated_def)
  have t: "role JNull = Inl TypeError" by (simp add: role_def)
  from admin_role_check_total [of JNull "[AdminDataProvider [Page AdminDashboard]]" True
      "Authenticated JNull"] h
  have "ProtectedRoute [AdminDataProvider [Page AdminDashboard]] True (Authenticated JNull)
       = Inr (Navigate ''/dashboard'' True)"
    by blast
  with h t show ?thesis by (intro conjI)
qed

section \<open>The route table\<close>

text \<open>
  Claim C6. The route table has one entry for \<^verbatim>\<open>/simulators\<close>, and its element is the
  redirect to \<^verbatim>\<open>/dashboard\<close> with \<^verbatim>\<open>replace\<close> set. The element is not a guard, so it
  renders the redirect in every guard state, mounting it starts no verification, and no
  request is sent.
\<close>

theorem simulators_redirect:
  "map_of AppRouter ''/simulators'' = Some (Navigate ''/dashboard'' True)
   \<and> filter (\<lambda>(p, e). p = ''/simulators'') AppRouter = [(''/simulators'', Navigate ''/dashboard'' True)]
   \<and> render s (Navigate ''/dashboard'' True) = Inr (Navigate ''/dashboard'' True)
   \<and> guard_requirement (Navigate ''/dashboard'' True) = None
   \<and> mount_effect api (Navigate ''/dashboard'' True) w = (Fulfilled, w)
   \<and> drive n be [] (mount_effect api (Navigate ''/dashboard'' True) w) = ([], Fulfilled, w)"
proof -
  have a: "map_of AppRouter ''/simulators'' = Some (Navigate ''/dashboard'' True)"
    by (simp add: AppRouter_def)
  have b: "filter (\<lambda>(p, e). p = ''/simulators'') AppRouter = [(''/simulators'', Navigate ''/dashboard'' True)]"
    by (simp add: AppRouter_def)
  have c: "render s (Navigate ''/dashboard'' True) = Inr (Navigate ''/dashboard'' True)"
    by (simp add: render_def)
  have d: "guard_requirement (Navigate ''/dashboard'' True) = None"
    by (simp add: guard_requirement_def)
  have e: "mount_effect api (Navigate ''/dashboard'' True) w = (Fulfilled, w)"
    by (simp add: mount_effect_def)
  have f: "drive n be [] (mount_effect api (Navigate ''/dashboard'' True) w) = ([], Fulfilled, w)"
    by (simp add: e drive_Fulfilled)
  from a b c d e f show ?thesis by (intro conjI)
qed

theorem simulators_redirect_witness:
  "render (Authenticated (JObj [(''role'', JStr ''admin'')])) (Navigate ''/dashboard'' True)
     = Inr (Navigate ''/dashboard'' True)
   \<and> render Unauthenticated (Navigate ''/dashboard'' True) = Inr (Navigate ''/dashboard'' True)
   \<and> render Loading (Navigate ''/dashboard'' True) = Inr (Navigate ''/dashboard'' True)
   \<and> fst (drive 2 (\<lambda>(h::request list) (r::request). Inl TypeError) []
        (mount_effect ''/api'' (Navigate ''/dashboard'' True) (mount Map.empty))) = []"
proof -
  note a = simulators_redirect [of "Authenticated (JObj [(''role'', JStr ''admin'')])"
      "''/api''" "mount Map.empty" 2 "\<lambda>(h::request list) (r::request). Inl TypeError"]
  note b = simulators_redirect [of Unauthenticated
      "''/api''" "mount Map.empty" 2 "\<lambda>(h::request list) (r::request). Inl TypeError"]
  note c = simulators_redirect [of Loading
      "''/api''" "mount Map.empty" 2 "\<lambda>(h::request list) (r::request). Inl TypeError"]
  from a b c show ?thesis by simp
qed

section \<open>Life cycle of the guard\<close>




end
